theory Spec2Isabelle
  imports Complex_Main "HOL-Library.Sublist"
begin

section \<open>PinePace: the road-advisory logic of \<open>MapScreen.tsx\<close>\<close>

text \<open>
  The screen component \<open>MapScreen\<close> holds all of the logic: the table \<open>roadsSpeeds\<close>,
  the colour classification \<open>getColorForSpeed\<close>, the position callback handed to
  \<open>Location.watchPositionAsync\<close>, the route search \<open>handleSearch\<close> and the suggestion
  filter \<open>handleSearchChange\<close>.

  Conventions of the model.
  \<^item> A JavaScript \<open>number\<close> that is finite is a \<open>real\<close>; rounding of doubles and \<open>NaN\<close> are
    not modelled. \<open>Date.now()\<close> is an \<open>int\<close> (milliseconds).
  \<^item> A JavaScript string is the list of its UTF-16 code units.
  \<^item> A distance is a finite number of metres or \<open>Infinity\<close> (the initial \<open>minDist\<close>).
  \<^item> An optional JSON property is an \<open>option\<close>; \<open>None\<close> stands for \<open>undefined\<close> or \<open>null\<close>.
  \<^item> A call that throws returns \<open>None\<close>; the \<open>try\<close>/\<open>catch\<close> blocks of the source are the
    case distinctions on that result.
  \<^item> The React state of the component and its two refs are one record; \<open>Speech.speak\<close>,
    \<open>Alert.alert\<close>, \<open>fetch\<close> and \<open>animateToRegion\<close> append to logs kept in that record.
  \<^item> \<open>String.prototype.toLowerCase\<close> is the case conversion of the JavaScript engine; it is
    a parameter of the model.
\<close>

subsection \<open>Strings\<close>

type_synonym jsstring = "nat list"

text \<open>
  A string literal of the source that is written in ASCII: each character is one code
  unit, of the same number.
\<close>

definition ascii :: "string \<Rightarrow> jsstring" where
  "ascii s = map of_char s"

text \<open>
  \<open>String.prototype.trim\<close> removes white space and line terminators from both ends. These
  are the code units U+0009 to U+000D, U+0020, U+00A0, U+1680, U+2000 to U+200A, U+2028,
  U+2029, U+202F, U+205F, U+3000 and U+FEFF.
\<close>

definition isWhitespace :: "nat \<Rightarrow> bool" where
  "isWhitespace c =
     (c \<in> set [0x0009, 0x000A, 0x000B, 0x000C, 0x000D, 0x0020, 0x00A0, 0x1680,
                0x2000, 0x2001, 0x2002, 0x2003, 0x2004, 0x2005, 0x2006, 0x2007, 0x2008,
                0x2009, 0x200A, 0x2028, 0x2029, 0x202F, 0x205F, 0x3000, 0xFEFF])"

definition trim :: "jsstring \<Rightarrow> jsstring" where
  "trim s = rev (dropWhile isWhitespace (rev (dropWhile isWhitespace s)))"

text \<open>\<open>s.includes(t)\<close>: \<open>t\<close> occurs in \<open>s\<close> as a contiguous run of code units.\<close>

definition includes_str :: "jsstring \<Rightarrow> jsstring \<Rightarrow> bool" where
  "includes_str s t = sublist t s"

subsection \<open>The static speed table\<close>

text \<open>
  The value of a limit. The code types it as a number, but the lookup \<open>roadsSpeeds[k]\<close> on
  the object literal also finds the members that every object inherits from
  \<open>Object.prototype\<close>: \<open>Member k\<close> is the inherited member of name \<open>k\<close> (a function, or the
  prototype object for \<open>__proto__\<close>). None of them is \<open>undefined\<close> or \<open>null\<close>.
\<close>

datatype limitValue = Num real | Member jsstring

text \<open>The ten own properties of \<open>const roadsSpeeds: Record<string, number>\<close>, lines 20-31.\<close>

definition roadsSpeedsEntries :: "(jsstring \<times> real) list" where
  "roadsSpeedsEntries =
     [(ascii ''Session Road'', 20),
      (ascii ''Marcos Highway'', 60),
      (ascii ''Kennon Road'', 50),
      (ascii ''Naguilian Road'', 50),
      (ascii ''Asin Road'', 40),
      (ascii ''Loakan Road'', 40),
      (ascii ''Halsema Highway'', 50),
      (ascii ''Magsaysay Avenue'', 30),
      (ascii ''Governor Pack Road'', 30),
      (ascii ''Military Cut-Off Road'', 20)]"

text \<open>The names of the properties of \<open>Object.prototype\<close>.\<close>

definition objectPrototypeNames :: "jsstring list" where
  "objectPrototypeNames =
     [ascii ''constructor'',
      ascii ''hasOwnProperty'',
      ascii ''isPrototypeOf'',
      ascii ''propertyIsEnumerable'',
      ascii ''toLocaleString'',
      ascii ''toString'',
      ascii ''valueOf'',
      ascii ''__proto__'',
      ascii ''__defineGetter__'',
      ascii ''__defineSetter__'',
      ascii ''__lookupGetter__'',
      ascii ''__lookupSetter__'']"

text \<open>
  The property lookup \<open>roadsSpeeds[k]\<close>: an own property first, then an inherited one;
  \<open>None\<close> is \<open>undefined\<close>.
\<close>

definition roadsSpeeds :: "jsstring \<Rightarrow> limitValue option" where
  "roadsSpeeds k =
     (case map_of roadsSpeedsEntries k of
        Some v \<Rightarrow> Some (Num v)
      | None \<Rightarrow> if k \<in> set objectPrototypeNames then Some (Member k) else None)"

text \<open>
  The comparisons of a limit with a number. An inherited member converts to a string that
  is not numeric, so \<open>limit <= k\<close> is false for it, and so is \<open>v > limit + 3\<close>, where
  \<open>limit + 3\<close> is then a string concatenation.
\<close>

definition limitLessEq :: "limitValue \<Rightarrow> real \<Rightarrow> bool" where
  "limitLessEq limit k = (case limit of Num l \<Rightarrow> l \<le> k | Member _ \<Rightarrow> False)"

definition greaterThanLimitPlus3 :: "real \<Rightarrow> limitValue \<Rightarrow> bool" where
  "greaterThanLimitPlus3 v limit = (case limit of Num l \<Rightarrow> v > l + 3 | Member _ \<Rightarrow> False)"

subsection \<open>Road features\<close>

text \<open>
  \<open>type RoadFeature = Feature<LineString, { name: string; speed_limit?: number }>\<close>.
  The features come from a JSON asset by a cast, and the code reads them defensively
  (\<open>road.properties?.name\<close>), so both properties are optional here. The geometry is
  whatever JSON value the asset holds (type \<open>'g\<close>); only the geometry library looks inside.
\<close>

record 'g RoadFeature =
  name :: "jsstring option"
  speed_limit :: "real option"
  geometry :: 'g

text \<open>A GeoJSON position \<open>[longitude, latitude]\<close>.\<close>

type_synonym position = "real \<times> real"

datatype distance = Meters real | Infinity

instantiation distance :: linorder
begin

fun less_eq_distance :: "distance \<Rightarrow> distance \<Rightarrow> bool" where
  "less_eq_distance (Meters a) (Meters b) = (a \<le> b)"
| "less_eq_distance (Meters a) Infinity = True"
| "less_eq_distance Infinity (Meters b) = False"
| "less_eq_distance Infinity Infinity = True"

fun less_distance :: "distance \<Rightarrow> distance \<Rightarrow> bool" where
  "less_distance (Meters a) (Meters b) = (a < b)"
| "less_distance (Meters a) Infinity = True"
| "less_distance Infinity (Meters b) = False"
| "less_distance Infinity Infinity = False"

instance
proof
  fix x y z :: distance
  show "(x < y) = (x \<le> y \<and> \<not> y \<le> x)"
    by (cases x; cases y) auto
  show "x \<le> x"
    by (cases x) auto
  show "x \<le> y \<Longrightarrow> y \<le> z \<Longrightarrow> x \<le> z"
    by (cases x; cases y; cases z) auto
  show "x \<le> y \<Longrightarrow> y \<le> x \<Longrightarrow> x = y"
    by (cases x; cases y) auto
  show "x \<le> y \<or> y \<le> x"
    by (cases x; cases y) auto
qed

end

subsection \<open>The geometry library\<close>

text \<open>
  The functions of \<open>@turf/helpers\<close> and \<open>@turf/point-to-line-distance\<close> are not part of the
  repository; they are parameters of the model. \<open>None\<close> is a call that throws.
  \<^item> \<open>turfLineString\<close>: the expression \<open>turfLineString(road.geometry.coordinates)\<close>, from the
    geometry of the road to a line (type \<open>'l\<close>);
  \<^item> \<open>pointToLineDistance\<close>: \<open>pointToLineDistance(turfPoint(p), line, {units: "meters"})\<close>;
  \<^item> \<open>pointToRoadDistance\<close>: \<open>pointToLineDistance(turfPoint(p), road, {units: "meters"})\<close>, the
    same function given the road feature itself, as \<open>handleSearch\<close> calls it.
\<close>

record ('g, 'l) turf =
  turfLineString :: "'g \<Rightarrow> 'l option"
  pointToLineDistance :: "position \<Rightarrow> 'l \<Rightarrow> distance option"
  pointToRoadDistance :: "position \<Rightarrow> 'g RoadFeature \<Rightarrow> distance option"

subsection \<open>Effective speed limits\<close>

text \<open>\<open>x || null\<close> on a string: the empty string is falsy.\<close>

definition orNull :: "jsstring option \<Rightarrow> jsstring option" where
  "orNull s = (case s of None \<Rightarrow> None | Some n \<Rightarrow> if n = [] then None else Some n)"

text \<open>
  Line 107: \<open>limit = road.properties?.speed_limit ?? roadsSpeeds[nearest ?? ""] ?? 30\<close>,
  where \<open>nearest = road.properties?.name || null\<close>.
\<close>

definition nearestLimit :: "'g RoadFeature \<Rightarrow> limitValue" where
  "nearestLimit road =
     (let nearest = orNull (RoadFeature.name road) in
      case RoadFeature.speed_limit road of
        Some l \<Rightarrow> Num l
      | None \<Rightarrow>
          (case roadsSpeeds (case nearest of None \<Rightarrow> [] | Some n \<Rightarrow> n) of
             Some v \<Rightarrow> v
           | None \<Rightarrow> Num 30))"

text \<open>
  Lines 178-179: \<open>name = road.properties?.name ?? "Unnamed"\<close> and
  \<open>limit = road.properties?.speed_limit ?? roadsSpeeds[name] ?? 30\<close>.
\<close>

definition routeName :: "'g RoadFeature \<Rightarrow> jsstring" where
  "routeName road = (case RoadFeature.name road of None \<Rightarrow> ascii ''Unnamed'' | Some n \<Rightarrow> n)"

definition routeLimit :: "'g RoadFeature \<Rightarrow> limitValue" where
  "routeLimit road =
     (case RoadFeature.speed_limit road of
        Some l \<Rightarrow> Num l
      | None \<Rightarrow> (case roadsSpeeds (routeName road) of Some v \<Rightarrow> v | None \<Rightarrow> Num 30))"

text \<open>
  The resolution order in the words of the specification: the feature's own limit if
  present, otherwise the entry of the speed table for its name, otherwise 30. The speed
  table of the specification is the static mapping from road names to limits.
\<close>

definition RoadSpeedTable_spec :: "jsstring \<rightharpoonup> real" where
  "RoadSpeedTable_spec = map_of roadsSpeedsEntries"

definition resolveLimit_spec :: "'g RoadFeature \<Rightarrow> real" where
  "resolveLimit_spec road =
     (case RoadFeature.speed_limit road of
        Some l \<Rightarrow> l
      | None \<Rightarrow>
          (case RoadFeature.name road of
             None \<Rightarrow> 30
           | Some n \<Rightarrow> (case RoadSpeedTable_spec n of Some l \<Rightarrow> l | None \<Rightarrow> 30)))"

text \<open>
  The colour categories in the words of the specification: up to 20 yellow, up to 30
  orange, up to 40 red, above that green.
\<close>

definition yellow :: string where "yellow = ''rgba(255,255,0,0.9)''"

definition orange :: string where "orange = ''rgba(255,165,0,0.9)''"

definition red :: string where "red = ''rgba(255,0,0,0.9)''"

definition green :: string where "green = ''rgba(0,128,0,0.9)''"

definition colorCategory_spec :: "real \<Rightarrow> string" where
  "colorCategory_spec l =
     (if l \<le> 20 then yellow else if l \<le> 30 then orange else if l \<le> 40 then red else green)"

subsection \<open>Colour categories\<close>

text \<open>\<open>getColorForSpeed\<close>, lines 58-63. The four strings are yellow, orange, red and green.\<close>

definition getColorForSpeed :: "limitValue \<Rightarrow> string" where
  "getColorForSpeed limit =
     (if limitLessEq limit 20 then ''rgba(255,255,0,0.9)''
      else if limitLessEq limit 30 then ''rgba(255,165,0,0.9)''
      else if limitLessEq limit 40 then ''rgba(255,0,0,0.9)''
      else ''rgba(0,128,0,0.9)'')"

subsection \<open>The state of the component\<close>

record LatLng =
  latitude :: real
  longitude :: real

record Region = LatLng +
  latitudeDelta :: real
  longitudeDelta :: real

text \<open>\<open>loc.coords\<close> of a position fix; \<open>speed\<close> is in metres per second and may be \<open>null\<close>.\<close>

record Coords = LatLng +
  speed :: "real option"

record UserLoc =
  lat :: real
  lon :: real

text \<open>An element of \<open>routeRoads\<close>: \<open>{ name, speed_limit, color }\<close>.\<close>

record RouteRoad =
  name :: jsstring
  speed_limit :: limitValue
  color :: string

text \<open>
  What is handed to \<open>speak\<close>. The three template strings of the source:
  \<^item> \<open>Overspeed n l\<close>: "Warning! You are overspeeding on n. The limit is l."
  \<^item> \<open>NowOn n l\<close>: "You are now on n. The speed limit is l."
  \<^item> \<open>RouteFound q\<close>: "Route found to q."
\<close>

datatype utterance =
  Overspeed jsstring limitValue | NowOn jsstring limitValue | RouteFound jsstring

text \<open>
  The two \<open>fetch\<close> calls of \<open>handleSearch\<close>: the geocoder with its \<open>q\<close> parameter, the
  router with origin and destination as \<open>(lon, lat)\<close>.
\<close>

datatype request = Geocode jsstring | Route position position

text \<open>
  The \<open>useState\<close> cells (except the map ref), the refs \<open>lastSpokenRef\<close> and
  \<open>userLocationRef\<close>, and the logs of the effects: \<open>spoken\<close> for \<open>speak\<close>, \<open>alerts\<close> for
  \<open>Alert.alert(title, message)\<close>, \<open>requests\<close> for \<open>fetch\<close>, \<open>animations\<close> for
  \<open>animateToRegion\<close> (the centre, \<open>None\<close> when the route has no coordinate). Logs grow at
  the end.
\<close>

record 'g State =
  region :: Region
  searchText :: jsstring
  suggestions :: "'g RoadFeature list"
  userSpeed :: real
  currentRoad :: "jsstring option"
  showLegend :: bool
  routeCoords :: "LatLng list"
  routeRoads :: "RouteRoad list"
  lastSpokenRef :: int
  userLocationRef :: "UserLoc option"
  spoken :: "utterance list"
  alerts :: "(string \<times> string) list"
  requests :: "request list"
  animations :: "LatLng option list"

text \<open>The state of the first render: the arguments of \<open>useState\<close> and \<open>useRef\<close>.\<close>

definition initialState :: "'g State" where
  "initialState =
     \<lparr>region = \<lparr>latitude = 16.412, longitude = 120.599,
                latitudeDelta = 0.05, longitudeDelta = 0.05\<rparr>,
      searchText = [],
      suggestions = [],
      userSpeed = 0,
      currentRoad = None,
      showLegend = False,
      routeCoords = [],
      routeRoads = [],
      lastSpokenRef = 0,
      userLocationRef = None,
      spoken = [],
      alerts = [],
      requests = [],
      animations = []\<rparr>"

definition speak :: "utterance \<Rightarrow> 'g State \<Rightarrow> 'g State" where
  "speak text st = st\<lparr>spoken := spoken st @ [text]\<rparr>"

definition alert :: "string \<Rightarrow> string \<Rightarrow> 'g State \<Rightarrow> 'g State" where
  "alert title message st = st\<lparr>alerts := alerts st @ [(title, message)]\<rparr>"

subsection \<open>The position callback\<close>

text \<open>The loop variables \<open>nearest\<close>, \<open>limit\<close> and \<open>minDist\<close> of lines 96-98.\<close>

record Scan =
  nearest :: "jsstring option"
  limit :: limitValue
  minDist :: distance

definition scanStart :: Scan where
  "scanStart = \<lparr>nearest = None, limit = Num 0, minDist = Infinity\<rparr>"

text \<open>The two calls inside the \<open>try\<close> of lines 101-103; \<open>None\<close> when either throws.\<close>

definition tryDistance :: "('g, 'l) turf \<Rightarrow> position \<Rightarrow> 'g RoadFeature \<Rightarrow> distance option" where
  "tryDistance T p road =
     (case turfLineString T (geometry road) of
        None \<Rightarrow> None
      | Some line \<Rightarrow> pointToLineDistance T p line)"

text \<open>
  The loop of lines 100-110; \<open>d\<close> is the source's \<open>dist\<close>. The empty \<open>catch {}\<close> keeps
  the loop variables and goes on to the next road.
\<close>

fun scanRoads :: "('g, 'l) turf \<Rightarrow> position \<Rightarrow> 'g RoadFeature list \<Rightarrow> Scan \<Rightarrow> Scan" where
  "scanRoads T p [] s = s"
| "scanRoads T p (road # roads) s =
     scanRoads T p roads
       (case tryDistance T p road of
          None \<Rightarrow> s
        | Some d \<Rightarrow>
            if d < minDist s
            then \<lparr>nearest = orNull (RoadFeature.name road),
                  limit = nearestLimit road,
                  minDist = d\<rparr>
            else s)"

text \<open>
  The callback of lines 89-125. \<open>seenUserSpeed\<close> is the value of the variable \<open>userSpeed\<close>
  in the scope where the callback was created; \<open>now\<close> is the value of \<open>Date.now()\<close>.
  \<open>setUserSpeed\<close> writes the state cell, it does not change that variable.
\<close>

definition positionCallback ::
  "('g, 'l) turf \<Rightarrow> 'g RoadFeature list \<Rightarrow> real \<Rightarrow> int \<Rightarrow> Coords \<Rightarrow> 'g State \<Rightarrow> 'g State" where
  "positionCallback T roadFeatures seenUserSpeed now coords st =
     (let st1 = st\<lparr>userLocationRef := Some \<lparr>lat = latitude coords, lon = longitude coords\<rparr>,
                   region := (region st)\<lparr>latitude := latitude coords,
                                          longitude := longitude coords\<rparr>,
                   userSpeed := (case speed coords of None \<Rightarrow> 0 | Some v \<Rightarrow> v) * 3.6\<rparr>;
          s = scanRoads T (longitude coords, latitude coords) roadFeatures scanStart
      in case nearest s of
           None \<Rightarrow> st1
         | Some n \<Rightarrow>
             if minDist s \<le> Meters 30 then
               (let st2 = st1\<lparr>currentRoad := Some n\<rparr> in
                if now - lastSpokenRef st2 > 7000 then
                  (speak (if greaterThanLimitPlus3 seenUserSpeed (limit s)
                          then Overspeed n (limit s)
                          else NowOn n (limit s)) st2)
                    \<lparr>lastSpokenRef := now\<rparr>
                else st2)
             else st1)"

text \<open>
  The callback is created inside \<open>useEffect(..., [])\<close>: the effect runs once, after the
  first render, so the callback registered with \<open>watchPositionAsync\<close> is the one of the
  first render, in whose scope \<open>userSpeed\<close> is the initial value of
  \<open>useState<number>(0)\<close>.
\<close>

definition watchCallback ::
  "('g, 'l) turf \<Rightarrow> 'g RoadFeature list \<Rightarrow> int \<Rightarrow> Coords \<Rightarrow> 'g State \<Rightarrow> 'g State" where
  "watchCallback T roadFeatures now coords st =
     positionCallback T roadFeatures 0 now coords st"

text \<open>A sequence of fixes, each with the clock value at which it is handled.\<close>

fun runFixes ::
  "('g, 'l) turf \<Rightarrow> 'g RoadFeature list \<Rightarrow> (int \<times> Coords) list \<Rightarrow> 'g State \<Rightarrow> 'g State" where
  "runFixes T roadFeatures [] st = st"
| "runFixes T roadFeatures ((now, coords) # evs) st =
     runFixes T roadFeatures evs (watchCallback T roadFeatures now coords st)"

text \<open>The clock values of the fixes of a sequence at which \<open>speak\<close> was called.\<close>

fun announcedAt ::
  "('g, 'l) turf \<Rightarrow> 'g RoadFeature list \<Rightarrow> (int \<times> Coords) list \<Rightarrow> 'g State \<Rightarrow> int list" where
  "announcedAt T roadFeatures [] st = []"
| "announcedAt T roadFeatures ((now, coords) # evs) st =
     (let st' = watchCallback T roadFeatures now coords st
      in (if spoken st' = spoken st then [] else [now])
         @ announcedAt T roadFeatures evs st')"

subsection \<open>Suggestions\<close>

text \<open>
  \<open>handleSearchChange\<close>, lines 202-211. \<open>toLowerCase\<close> is the engine's
  \<open>String.prototype.toLowerCase\<close>.
\<close>

definition handleSearchChange ::
  "(jsstring \<Rightarrow> jsstring) \<Rightarrow> 'g RoadFeature list \<Rightarrow> jsstring \<Rightarrow> 'g State \<Rightarrow> 'g State" where
  "handleSearchChange toLowerCase roadFeatures text st =
     (let st1 = st\<lparr>searchText := text\<rparr> in
      if trim text = [] then st1\<lparr>suggestions := []\<rparr>
      else
        (let matches =
               filter (\<lambda>r. case RoadFeature.name r of
                              None \<Rightarrow> False
                            | Some n \<Rightarrow> includes_str (toLowerCase n) (toLowerCase text))
                 roadFeatures
         in st1\<lparr>suggestions := take 5 matches\<rparr>))"

subsection \<open>Route search\<close>

text \<open>
  The inner loop of lines 175-184, over the coordinates of the route, for one road. A
  call of \<open>pointToLineDistance\<close> that throws leaves both loops (there is no \<open>try\<close> inside
  them): the result is \<open>None\<close>.
\<close>

fun matchCoords ::
  "('g, 'l) turf \<Rightarrow> 'g RoadFeature \<Rightarrow> position list \<Rightarrow> RouteRoad list \<Rightarrow> RouteRoad list option"
  where
  "matchCoords T road [] matched = Some matched"
| "matchCoords T road (p # ps) matched =
     (case pointToRoadDistance T p road of
        None \<Rightarrow> None
      | Some d \<Rightarrow>
          if d \<le> Meters 30 then
            (let name = routeName road;
                 limit = routeLimit road
             in if find (\<lambda>m. RouteRoad.name m = name) matched = None
                then matchCoords T road ps
                       (matched @ [\<lparr>name = name, speed_limit = limit,
                                    color = getColorForSpeed limit\<rparr>])
                else matchCoords T road ps matched)
          else matchCoords T road ps matched)"

text \<open>The outer loop of lines 174-185, over the roads.\<close>

fun matchRoads ::
  "('g, 'l) turf \<Rightarrow> position list \<Rightarrow> 'g RoadFeature list \<Rightarrow> RouteRoad list \<Rightarrow> RouteRoad list option"
  where
  "matchRoads T route [] matched = Some matched"
| "matchRoads T route (road # roads) matched =
     (case matchCoords T road route matched of
        None \<Rightarrow> None
      | Some matched' \<Rightarrow> matchRoads T route roads matched')"

text \<open>The \<open>catch\<close> of lines 195-198.\<close>

definition failed :: "'g State \<Rightarrow> 'g State" where
  "failed st = alert ''Error'' ''Failed to find route.'' st"

text \<open>\<open>coords[Math.floor(coords.length / 2)]\<close>; \<open>None\<close> is \<open>undefined\<close>.\<close>

definition midpoint :: "LatLng list \<Rightarrow> LatLng option" where
  "midpoint coords =
     (if length coords div 2 < length coords then Some (coords ! (length coords div 2))
      else None)"

text \<open>
  \<open>handleSearch\<close>, lines 131-199. The two web services are parameters:
  \<^item> \<open>geocoder q\<close> is the parsed answer to the search for \<open>q\<close>: the list of candidates as
    \<open>(parseFloat(lat), parseFloat(lon))\<close>; an answer without \<open>length\<close> is the empty list;
  \<^item> \<open>router from to\<close> is the parsed answer of the router: the list \<open>routes\<close>, each route
    as its \<open>geometry.coordinates\<close>; an answer without routes is the empty list;
  \<^item> \<open>None\<close> is a request that throws: in \<open>encodeURIComponent\<close> (a query with a lone
    surrogate), in \<open>fetch\<close> or in \<open>json()\<close>.
  The log \<open>requests\<close> holds the requests that were attempted.
  The function is one step on the state: fixes that arrive while a request is pending are
  not interleaved.
\<close>

definition handleSearch ::
  "('g, 'l) turf \<Rightarrow> 'g RoadFeature list \<Rightarrow>
   (jsstring \<Rightarrow> (real \<times> real) list option) \<Rightarrow>
   (position \<Rightarrow> position \<Rightarrow> position list list option) \<Rightarrow>
   jsstring \<Rightarrow> 'g State \<Rightarrow> 'g State" where
  "handleSearch T roadFeatures geocoder router query st =
     (if trim query = [] then st
      else
        (let q = query @ ascii '', Baguio City, Philippines'';
             st1 = st\<lparr>requests := requests st @ [Geocode q]\<rparr>
         in case geocoder q of
              None \<Rightarrow> failed st1
            | Some [] \<Rightarrow> alert ''Not found'' ''Could not find that location.'' st1
            | Some ((destLat, destLon) # _) \<Rightarrow>
                (case userLocationRef st1 of
                   None \<Rightarrow> alert ''Error'' ''User location not yet detected.'' st1
                 | Some userLoc \<Rightarrow>
                     (let origin = (lon userLoc, lat userLoc);
                          st2 = st1\<lparr>requests := requests st1 @ [Route origin (destLon, destLat)]\<rparr>
                      in case router origin (destLon, destLat) of
                           None \<Rightarrow> failed st2
                         | Some [] \<Rightarrow> alert ''Routing failed'' ''No route found.'' st2
                         | Some (route # _) \<Rightarrow>
                             (let coords = map (\<lambda>(lon, lat). \<lparr>latitude = lat, longitude = lon\<rparr>) route;
                                  st3 = st2\<lparr>routeCoords := coords, showLegend := True\<rparr>
                              in case matchRoads T route roadFeatures [] of
                                   None \<Rightarrow> failed st3
                                 | Some matched \<Rightarrow>
                                     speak (RouteFound query)
                                       (st3\<lparr>routeRoads := matched,
                                            animations := animations st3 @ [midpoint coords]\<rparr>))))))"

subsection \<open>Closed forms of the route loops\<close>

text \<open>
  The wording of the specification for the route loops, used to state their result.
  \<open>nearRoute\<close>: the road lies within 30 metres of at least one coordinate of the route.
\<close>

definition nearRoute :: "('g, 'l) turf \<Rightarrow> position list \<Rightarrow> 'g RoadFeature \<Rightarrow> bool" where
  "nearRoute T route road =
     list_ex (\<lambda>p. case pointToRoadDistance T p road of
                     None \<Rightarrow> False
                   | Some d \<Rightarrow> d \<le> Meters 30) route"

text \<open>The element pushed on line 181 for a road.\<close>

definition matchedEntry :: "'g RoadFeature \<Rightarrow> RouteRoad" where
  "matchedEntry road =
     \<lparr>name = routeName road, speed_limit = routeLimit road,
      color = getColorForSpeed (routeLimit road)\<rparr>"

text \<open>What one round of the outer loop does to \<open>matched\<close> when no call throws.\<close>

definition addMatched ::
  "('g, 'l) turf \<Rightarrow> position list \<Rightarrow> RouteRoad list \<Rightarrow> 'g RoadFeature \<Rightarrow> RouteRoad list" where
  "addMatched T route matched road =
     (if nearRoute T route road \<and> routeName road \<notin> RouteRoad.name ` set matched
      then matched @ [matchedEntry road]
      else matched)"

subsection \<open>Concrete inputs\<close>

text \<open>
  A geometry library for the examples: a geometry is the function that gives its own
  distance from each point (\<open>None\<close> where the library throws), and a line is the same
  function.
\<close>

type_synonym toyGeometry = "position \<Rightarrow> distance option"

definition toyTurf :: "(toyGeometry, toyGeometry) turf" where
  "toyTurf =
     \<lparr>turfLineString = Some,
      pointToLineDistance = (\<lambda>p line. line p),
      pointToRoadDistance = (\<lambda>p road. geometry road p)\<rparr>"

text \<open>
  Four roads without an explicit limit: two at 10 metres from every point, one at 40
  metres, and one whose geometry makes every call throw.
\<close>

definition sessionRoad :: "toyGeometry RoadFeature" where
  "sessionRoad =
     \<lparr>RoadFeature.name = Some (ascii ''Session Road''), RoadFeature.speed_limit = None,
      geometry = (\<lambda>p. Some (Meters 10))\<rparr>"

definition kennonRoad :: "toyGeometry RoadFeature" where
  "kennonRoad =
     \<lparr>RoadFeature.name = Some (ascii ''Kennon Road''), RoadFeature.speed_limit = None,
      geometry = (\<lambda>p. Some (Meters 10))\<rparr>"

definition asinRoad :: "toyGeometry RoadFeature" where
  "asinRoad =
     \<lparr>RoadFeature.name = Some (ascii ''Asin Road''), RoadFeature.speed_limit = None,
      geometry = (\<lambda>p. Some (Meters 40))\<rparr>"

definition brokenRoad :: "toyGeometry RoadFeature" where
  "brokenRoad =
     \<lparr>RoadFeature.name = Some (ascii ''Broken Lane''), RoadFeature.speed_limit = None,
      geometry = (\<lambda>p. None)\<rparr>"

text \<open>
  A feature without a name, 5 metres from every point, and a feature 10 metres from every
  point whose name is the name of a member of \<open>Object.prototype\<close>.
\<close>

definition unnamedAlley :: "toyGeometry RoadFeature" where
  "unnamedAlley =
     \<lparr>RoadFeature.name = None, RoadFeature.speed_limit = None,
      geometry = (\<lambda>p. Some (Meters 5))\<rparr>"

definition constructorRoad :: "toyGeometry RoadFeature" where
  "constructorRoad =
     \<lparr>RoadFeature.name = Some (ascii ''constructor''), RoadFeature.speed_limit = None,
      geometry = (\<lambda>p. Some (Meters 10))\<rparr>"

text \<open>A case conversion for the examples: it maps \<open>A\<close>..\<open>Z\<close> to \<open>a\<close>..\<open>z\<close>.\<close>

definition asciiLower :: "jsstring \<Rightarrow> jsstring" where
  "asciiLower s = map (\<lambda>c. if 65 \<le> c \<and> c \<le> 90 then c + 32 else c) s"

text \<open>A fix at 10 m/s (36 km/h) and one at 25 m/s (90 km/h).\<close>

definition slowFix :: Coords where
  "slowFix = \<lparr>latitude = 16.5, longitude = 120.7, speed = Some 10\<rparr>"

definition fastFix :: Coords where
  "fastFix = \<lparr>latitude = 16.412, longitude = 120.599, speed = Some 25\<rparr>"

text \<open>
  A state in which one fix has been received, a route of one coordinate, a geocoder
  with one candidate and a router with that one route.
\<close>

definition locatedState :: "toyGeometry State" where
  "locatedState = initialState\<lparr>userLocationRef := Some \<lparr>lat = 16.412, lon = 120.599\<rparr>\<rparr>"

definition toyRoute :: "position list" where
  "toyRoute = [(120.6, 16.4)]"

definition toyGeocoder :: "jsstring \<Rightarrow> (real \<times> real) list option" where
  "toyGeocoder q = Some [(16.39, 120.61)]"

definition toyRouter :: "position \<Rightarrow> position \<Rightarrow> position list list option" where
  "toyRouter origin dest = Some [toyRoute]"


section \<open>Properties\<close>

lemmas toy_defs =
  toyTurf_def sessionRoad_def kennonRoad_def asinRoad_def brokenRoad_def slowFix_def
  fastFix_def

lemmas colour_defs = yellow_def orange_def red_def green_def

lemmas table_defs = roadsSpeeds_def roadsSpeedsEntries_def objectPrototypeNames_def ascii_def

lemmas eval_defs =
  watchCallback_def positionCallback_def initialState_def scanStart_def tryDistance_def
  orNull_def nearestLimit_def table_defs speak_def Let_def alert_def failed_def
  routeName_def routeLimit_def getColorForSpeed_def limitLessEq_def
  greaterThanLimitPlus3_def midpoint_def

subsection \<open>Effective speed limits\<close>

lemma roadsSpeeds_empty_name: "roadsSpeeds [] = None"
  by (simp add: table_defs)

lemma roadsSpeeds_Unnamed: "roadsSpeeds (ascii ''Unnamed'') = None"
  by (simp add: table_defs)

lemma RoadSpeedTable_spec_empty_name: "RoadSpeedTable_spec [] = None"
  by (simp add: RoadSpeedTable_spec_def roadsSpeedsEntries_def ascii_def)

lemma roadsSpeeds_own_name:
  "k \<notin> set objectPrototypeNames \<Longrightarrow> roadsSpeeds k = map_option Num (RoadSpeedTable_spec k)"
  by (simp add: roadsSpeeds_def RoadSpeedTable_spec_def split: option.splits)

text \<open>
  For a feature whose name is not the name of a member of \<open>Object.prototype\<close>, both
  places that compute a limit (the nearest-road loop and the route loop) follow the
  order of the specification: explicit \<open>speed_limit\<close>, then the table by name, then 30.
\<close>

lemma limit_resolution_own_names:
  assumes "\<forall>n. RoadFeature.name road = Some n \<longrightarrow> n \<notin> set objectPrototypeNames"
  shows "nearestLimit road = Num (resolveLimit_spec road)"
    and "routeLimit road = Num (resolveLimit_spec road)"
proof -
  show "nearestLimit road = Num (resolveLimit_spec road)"
  proof (cases "RoadFeature.name road")
    case None
    then show ?thesis
      by (simp add: nearestLimit_def resolveLimit_spec_def orNull_def roadsSpeeds_empty_name
          split: option.splits)
  next
    case (Some n)
    with assms have "roadsSpeeds n = map_option Num (RoadSpeedTable_spec n)"
      by (simp add: roadsSpeeds_own_name)
    with Some show ?thesis
      by (simp add: nearestLimit_def resolveLimit_spec_def orNull_def roadsSpeeds_empty_name
          RoadSpeedTable_spec_empty_name split: option.splits)
  qed
  show "routeLimit road = Num (resolveLimit_spec road)"
  proof (cases "RoadFeature.name road")
    case None
    then show ?thesis
      by (simp add: routeLimit_def routeName_def resolveLimit_spec_def roadsSpeeds_Unnamed
          split: option.splits)
  next
    case (Some n)
    with assms have "roadsSpeeds n = map_option Num (RoadSpeedTable_spec n)"
      by (simp add: roadsSpeeds_own_name)
    with Some show ?thesis
      by (simp add: routeLimit_def routeName_def resolveLimit_spec_def split: option.splits)
  qed
qed

lemma session_road_limit:
  "nearestLimit sessionRoad = Num 20" "routeLimit sessionRoad = Num 20"
  "resolveLimit_spec sessionRoad = 20"
  by (simp_all add: nearestLimit_def routeLimit_def routeName_def resolveLimit_spec_def
      RoadSpeedTable_spec_def orNull_def table_defs sessionRoad_def)

text \<open>
  C3, at a concrete feature. A feature named "constructor" without an explicit limit
  has no entry in the speed table, so its limit by the order of the specification is
  30. Both lookups of the code find the member \<open>constructor\<close> that the table object
  inherits, the fallback to 30 is not reached, and the limit is that member.
\<close>

theorem inherited_member_as_limit:
  "RoadFeature.speed_limit constructorRoad = None
   \<and> RoadSpeedTable_spec (ascii ''constructor'') = None
   \<and> resolveLimit_spec constructorRoad = 30
   \<and> nearestLimit constructorRoad = Member (ascii ''constructor'')
   \<and> routeLimit constructorRoad = Member (ascii ''constructor'')"
  by (simp add: nearestLimit_def routeLimit_def routeName_def resolveLimit_spec_def
      RoadSpeedTable_spec_def orNull_def table_defs constructorRoad_def)

subsection \<open>Blank input\<close>

lemma trim_empty_iff: "trim s = [] \<longleftrightarrow> (\<forall>c\<in>set s. isWhitespace c)"
proof
  assume "trim s = []"
  then have "\<forall>c\<in>set (dropWhile isWhitespace s). isWhitespace c"
    by (simp add: trim_def dropWhile_eq_Nil_conv)
  then have "dropWhile isWhitespace s = []"
    by (metis hd_dropWhile list.set_sel(1))
  then show "\<forall>c\<in>set s. isWhitespace c"
    by (simp add: dropWhile_eq_Nil_conv)
next
  assume "\<forall>c\<in>set s. isWhitespace c"
  then have e: "dropWhile isWhitespace s = []"
    by (simp add: dropWhile_eq_Nil_conv)
  show "trim s = []"
    unfolding trim_def e by simp
qed

text \<open>
  C10. A query that is empty or consists only of whitespace (the white space and line
  terminators of the language, which \<open>trim\<close> removes) makes \<open>handleSearch\<close> return the
  state as it was: the request log, the alert log, the route polyline, the matched
  roads and every other component are unchanged.
\<close>

theorem blank_query_no_effect:
  "\<forall>c\<in>set query. isWhitespace c \<Longrightarrow>
   handleSearch T roadFeatures geocoder router query st = st"
  by (simp add: handleSearch_def trim_empty_iff)

theorem blank_query_no_effect_witness:
  "list_all isWhitespace [0x0020, 0x00A0, 0x3000]
   \<and> handleSearch toyTurf [sessionRoad] toyGeocoder toyRouter [0x0020, 0x00A0, 0x3000]
        initialState = initialState"
proof -
  have h: "\<forall>c\<in>set [0x0020, 0x00A0, 0x3000]. isWhitespace c"
    by (simp add: isWhitespace_def)
  from h blank_query_no_effect [OF h] show ?thesis
    by (simp add: list_all_iff)
qed

subsection \<open>The wording of the announcement\<close>

text \<open>
  C1, at a concrete fix. The first fix reports 25 m/s, which is 90 km/h, within 10 metres
  of Session Road (limit 20), with the cooldown elapsed. The speed readout becomes 90,
  which is more than 20 + 3, and the callback speaks the normal wording: the comparison
  of line 117 reads the variable \<open>userSpeed\<close> of the first render, which is 0.
\<close>

theorem overspeed_wording_lost:
  "userSpeed (watchCallback toyTurf [sessionRoad] 1700000000000 fastFix initialState) = 90
   \<and> spoken (watchCallback toyTurf [sessionRoad] 1700000000000 fastFix initialState)
       = [NowOn (ascii ''Session Road'') (Num 20)]"
  by (simp add: eval_defs toy_defs)

subsection \<open>Suggestions\<close>

text \<open>
  C8, as the code has it. A text that is empty or all whitespace gives no suggestion.
  Any other text gives the first five features, in the order of the road index, whose
  name in lower case contains the text as typed (untrimmed) in lower case, whatever
  the case conversion of the engine is.
\<close>

theorem suggestions_filter:
  "suggestions (handleSearchChange toLowerCase roadFeatures text st) =
     (if \<forall>c\<in>set text. isWhitespace c then []
      else take 5 (filter (\<lambda>r. \<exists>n. RoadFeature.name r = Some n
                                  \<and> sublist (toLowerCase text) (toLowerCase n)) roadFeatures))
   \<and> length (suggestions (handleSearchChange toLowerCase roadFeatures text st)) \<le> 5
   \<and> subseq (suggestions (handleSearchChange toLowerCase roadFeatures text st)) roadFeatures"
proof -
  have eq: "(\<lambda>r. case RoadFeature.name r of None \<Rightarrow> False
                 | Some n \<Rightarrow> includes_str (toLowerCase n) (toLowerCase text))
          = (\<lambda>r::'a RoadFeature. \<exists>n. RoadFeature.name r = Some n
                                   \<and> sublist (toLowerCase text) (toLowerCase n))"
    by (auto simp: includes_str_def fun_eq_iff split: option.splits)
  have a: "suggestions (handleSearchChange toLowerCase roadFeatures text st) =
     (if \<forall>c\<in>set text. isWhitespace c then []
      else take 5 (filter (\<lambda>r. \<exists>n. RoadFeature.name r = Some n
                                  \<and> sublist (toLowerCase text) (toLowerCase n)) roadFeatures))"
    unfolding handleSearchChange_def Let_def eq by (simp add: trim_empty_iff)
  have b: "length (suggestions (handleSearchChange toLowerCase roadFeatures text st)) \<le> 5"
    unfolding a by simp
  have "subseq (take 5 (filter P roadFeatures)) roadFeatures" for P :: "'a RoadFeature \<Rightarrow> bool"
    using subseq_order.trans [OF sublist_imp_subseq [OF sublist_take] subseq_filter_left] .
  then have c: "subseq (suggestions (handleSearchChange toLowerCase roadFeatures text st))
      roadFeatures"
    unfolding a by simp
  from a b c show ?thesis by blast
qed

theorem suggestions_filter_witness:
  "\<not> (\<forall>c\<in>set (ascii ''ROAD''). isWhitespace c)
   \<and> suggestions (handleSearchChange asciiLower [brokenRoad, sessionRoad, kennonRoad]
        (ascii ''ROAD'') initialState)
       = [sessionRoad, kennonRoad]"
proof -
  have a: "asciiLower (ascii ''ROAD'') = ascii ''road''"
    "asciiLower (ascii ''Session Road'') = ascii ''session road''"
    "asciiLower (ascii ''Kennon Road'') = ascii ''kennon road''"
    "asciiLower (ascii ''Broken Lane'') = ascii ''broken lane''"
    by (simp_all add: asciiLower_def ascii_def)
  have b: "\<not> (\<forall>c\<in>set (ascii ''ROAD''). isWhitespace c)"
    by (simp add: isWhitespace_def ascii_def)
  from b suggestions_filter [of asciiLower "[brokenRoad, sessionRoad, kennonRoad]"
      "ascii ''ROAD''" initialState]
  show ?thesis
    by (simp add: toy_defs a) (simp add: ascii_def sublist_code)
qed

text \<open>
  The claim as written fails at the text of one space: "Session Road" contains it, and
  no suggestion is made.
\<close>

theorem suggestions_blank_counterexample:
  "sublist (asciiLower (ascii '' '')) (asciiLower (ascii ''Session Road''))
   \<and> suggestions (handleSearchChange asciiLower [sessionRoad] (ascii '' '') initialState) = []"
  by (simp add: handleSearchChange_def trim_def isWhitespace_def asciiLower_def ascii_def
      sublist_code)

subsection \<open>A fix without a match\<close>

text \<open>
  C9, as the code has it. When the scan ends with no road name or with a minimum
  distance above 30 metres, the callback changes three components of the state: the
  speed readout (the speed of the fix times 3.6, 0 for a fix without speed), the centre
  of the map region and the last known user location. The current road, the speech log
  and the timestamp of the last announcement stay as they were.
\<close>

theorem no_match_frame:
  assumes "nearest (scanRoads T (longitude coords, latitude coords) roadFeatures scanStart) = None
           \<or> \<not> minDist (scanRoads T (longitude coords, latitude coords) roadFeatures scanStart)
                 \<le> Meters 30"
  shows "watchCallback T roadFeatures now coords st =
           st\<lparr>userLocationRef := Some \<lparr>lat = latitude coords, lon = longitude coords\<rparr>,
              region := (region st)\<lparr>latitude := latitude coords, longitude := longitude coords\<rparr>,
              userSpeed := (case speed coords of None \<Rightarrow> 0 | Some v \<Rightarrow> v) * 3.6\<rparr>
         \<and> currentRoad (watchCallback T roadFeatures now coords st) = currentRoad st
         \<and> spoken (watchCallback T roadFeatures now coords st) = spoken st
         \<and> lastSpokenRef (watchCallback T roadFeatures now coords st) = lastSpokenRef st"
proof -
  have "watchCallback T roadFeatures now coords st =
           st\<lparr>userLocationRef := Some \<lparr>lat = latitude coords, lon = longitude coords\<rparr>,
              region := (region st)\<lparr>latitude := latitude coords, longitude := longitude coords\<rparr>,
              userSpeed := (case speed coords of None \<Rightarrow> 0 | Some v \<Rightarrow> v) * 3.6\<rparr>"
    using assms by (auto simp: watchCallback_def positionCallback_def Let_def split: option.splits)
  then show ?thesis by simp
qed

theorem no_match_frame_witness:
  "\<not> minDist (scanRoads toyTurf (longitude slowFix, latitude slowFix) [asinRoad] scanStart)
       \<le> Meters 30
   \<and> watchCallback toyTurf [asinRoad] 1700000000000 slowFix initialState
     = initialState
         \<lparr>userLocationRef := Some \<lparr>lat = 16.5, lon = 120.7\<rparr>,
          region := \<lparr>latitude = 16.5, longitude = 120.7,
                     latitudeDelta = 0.05, longitudeDelta = 0.05\<rparr>,
          userSpeed := 36\<rparr>"
proof -
  have h: "\<not> minDist (scanRoads toyTurf (longitude slowFix, latitude slowFix) [asinRoad] scanStart)
               \<le> Meters 30"
    by (simp add: toy_defs scanStart_def tryDistance_def)
  show ?thesis
    using no_match_frame [of toyTurf slowFix "[asinRoad]" 1700000000000 initialState] h
    by (simp add: initialState_def slowFix_def)
qed

text \<open>
  The claim as written (only the speed readout is updated) fails at a fix 40 metres from
  the only road: the map region and the last known location follow the fix.
\<close>

theorem no_match_position_counterexample:
  "\<not> minDist (scanRoads toyTurf (longitude slowFix, latitude slowFix) [asinRoad] scanStart)
       \<le> Meters 30
   \<and> region (watchCallback toyTurf [asinRoad] 1700000000000 slowFix initialState)
      = \<lparr>latitude = 16.5, longitude = 120.7, latitudeDelta = 0.05, longitudeDelta = 0.05\<rparr>
   \<and> region (initialState :: toyGeometry State)
      = \<lparr>latitude = 16.412, longitude = 120.599, latitudeDelta = 0.05, longitudeDelta = 0.05\<rparr>
   \<and> userLocationRef (watchCallback toyTurf [asinRoad] 1700000000000 slowFix initialState)
      = Some \<lparr>lat = 16.5, lon = 120.7\<rparr>
   \<and> userLocationRef (initialState :: toyGeometry State) = None"
  by (simp add: eval_defs toy_defs)

subsection \<open>Failures of the route search\<close>

text \<open>
  C7, as the code has it. For a query that is not blank, \<open>handleSearch\<close> checks in this
  order: the geocoder returns no candidate ("Not found"); otherwise no position fix has
  been received ("User location not yet detected."); otherwise the router returns no
  route ("Routing failed"). Each of the three appends its alert and leaves the route
  polyline and the matched roads as they were.
\<close>

theorem planRoute_failures:
  assumes "\<not> (\<forall>c\<in>set query. isWhitespace c)"
  shows
    "(geocoder (query @ ascii '', Baguio City, Philippines'') = Some [] \<longrightarrow>
        alerts (handleSearch T roadFeatures geocoder router query st)
          = alerts st @ [(''Not found'', ''Could not find that location.'')]
        \<and> routeCoords (handleSearch T roadFeatures geocoder router query st) = routeCoords st
        \<and> routeRoads (handleSearch T roadFeatures geocoder router query st) = routeRoads st)
     \<and> (geocoder (query @ ascii '', Baguio City, Philippines'') = Some (dest # rest)
          \<and> userLocationRef st = None \<longrightarrow>
        alerts (handleSearch T roadFeatures geocoder router query st)
          = alerts st @ [(''Error'', ''User location not yet detected.'')]
        \<and> routeCoords (handleSearch T roadFeatures geocoder router query st) = routeCoords st
        \<and> routeRoads (handleSearch T roadFeatures geocoder router query st) = routeRoads st)
     \<and> (geocoder (query @ ascii '', Baguio City, Philippines'') = Some (dest # rest)
          \<and> userLocationRef st = Some userLoc
          \<and> router (lon userLoc, lat userLoc) (snd dest, fst dest) = Some [] \<longrightarrow>
        alerts (handleSearch T roadFeatures geocoder router query st)
          = alerts st @ [(''Routing failed'', ''No route found.'')]
        \<and> routeCoords (handleSearch T roadFeatures geocoder router query st) = routeCoords st
        \<and> routeRoads (handleSearch T roadFeatures geocoder router query st) = routeRoads st)"
proof -
  from assms have nb: "trim query \<noteq> []"
    by (simp add: trim_empty_iff)
  have a: "geocoder (query @ ascii '', Baguio City, Philippines'') = Some [] \<Longrightarrow>
           handleSearch T roadFeatures geocoder router query st
             = alert ''Not found'' ''Could not find that location.''
                 (st\<lparr>requests := requests st @ [Geocode (query @ ascii '', Baguio City, Philippines'')]\<rparr>)"
    using nb by (simp add: handleSearch_def Let_def)
  have b: "geocoder (query @ ascii '', Baguio City, Philippines'') = Some (dest # rest) \<Longrightarrow>
           userLocationRef st = None \<Longrightarrow>
           handleSearch T roadFeatures geocoder router query st
             = alert ''Error'' ''User location not yet detected.''
                 (st\<lparr>requests := requests st @ [Geocode (query @ ascii '', Baguio City, Philippines'')]\<rparr>)"
    using nb by (cases dest) (simp add: handleSearch_def Let_def)
  have c: "geocoder (query @ ascii '', Baguio City, Philippines'') = Some (dest # rest) \<Longrightarrow>
           userLocationRef st = Some userLoc \<Longrightarrow>
           router (lon userLoc, lat userLoc) (snd dest, fst dest) = Some [] \<Longrightarrow>
           handleSearch T roadFeatures geocoder router query st
             = alert ''Routing failed'' ''No route found.''
                 (st\<lparr>requests := requests st @ [Geocode (query @ ascii '', Baguio City, Philippines''),
                        Route (lon userLoc, lat userLoc) (snd dest, fst dest)]\<rparr>)"
    using nb by (cases dest) (simp add: handleSearch_def Let_def)
  show ?thesis
    using a b c by (simp add: alert_def)
qed

theorem planRoute_failures_witness:
  "\<not> (\<forall>c\<in>set (ascii ''Burnham Park''). isWhitespace c)
   \<and> alerts (handleSearch toyTurf [sessionRoad] (\<lambda>q. Some []) (\<lambda>a b. Some []) (ascii ''Burnham Park'')
        initialState) = [(''Not found'', ''Could not find that location.'')]
   \<and> alerts (handleSearch toyTurf [sessionRoad] (\<lambda>q. Some [(16.41, 120.59)]) (\<lambda>a b. Some [])
        (ascii ''Burnham Park'') initialState) = [(''Error'', ''User location not yet detected.'')]
   \<and> alerts (handleSearch toyTurf [sessionRoad] (\<lambda>q. Some [(16.41, 120.59)]) (\<lambda>a b. Some [])
        (ascii ''Burnham Park'') (initialState\<lparr>userLocationRef := Some \<lparr>lat = 16.5, lon = 120.7\<rparr>\<rparr>))
       = [(''Routing failed'', ''No route found.'')]"
proof -
  have h: "\<not> (\<forall>c\<in>set (ascii ''Burnham Park''). isWhitespace c)"
    by (simp add: isWhitespace_def ascii_def)
  note t = planRoute_failures [OF h, where T = toyTurf and roadFeatures = "[sessionRoad]"
      and router = "\<lambda>a b. Some []"]
  show ?thesis
    using h
      t [where geocoder = "\<lambda>q. Some []" and st = initialState]
      t [where geocoder = "\<lambda>q. Some [(16.41, 120.59)]" and st = initialState
         and dest = "(16.41, 120.59)" and rest = "[]"]
      t [where geocoder = "\<lambda>q. Some [(16.41, 120.59)]"
         and st = "initialState\<lparr>userLocationRef := Some \<lparr>lat = 16.5, lon = 120.7\<rparr>\<rparr>"
         and dest = "(16.41, 120.59)" and rest = "[]" and userLoc = "\<lparr>lat = 16.5, lon = 120.7\<rparr>"]
    by (simp add: initialState_def)
qed

text \<open>
  The claim as written fails before any fix has been received: when the geocoder returns
  no candidate the alert is "Not found", and for a blank query there is no alert at all.
\<close>

theorem planRoute_precedence_counterexample:
  "userLocationRef (initialState :: toyGeometry State) = None
   \<and> alerts (handleSearch toyTurf [sessionRoad] (\<lambda>q. Some []) (\<lambda>a b. Some []) (ascii ''Burnham Park'')
        initialState) = [(''Not found'', ''Could not find that location.'')]
   \<and> alerts (handleSearch toyTurf [sessionRoad] (\<lambda>q. Some [(16.41, 120.59)]) (\<lambda>a b. Some [])
        (ascii ''  '') initialState) = []"
  by (simp add: handleSearch_def trim_def isWhitespace_def initialState_def alert_def ascii_def)


subsection \<open>Cooldown\<close>

lemma watchCallback_speech:
  "(spoken (watchCallback T roadFeatures now coords st) = spoken st
      \<and> lastSpokenRef (watchCallback T roadFeatures now coords st) = lastSpokenRef st)
   \<or> ((\<exists>u. spoken (watchCallback T roadFeatures now coords st) = spoken st @ [u])
      \<and> lastSpokenRef (watchCallback T roadFeatures now coords st) = now
      \<and> now - lastSpokenRef st > 7000)"
  by (simp add: watchCallback_def positionCallback_def speak_def Let_def split: option.splits)

lemma watchCallback_silent:
  "now - lastSpokenRef st \<le> 7000 \<Longrightarrow>
   spoken (watchCallback T roadFeatures now coords st) = spoken st
   \<and> lastSpokenRef (watchCallback T roadFeatures now coords st) = lastSpokenRef st"
  by (simp add: watchCallback_def positionCallback_def speak_def Let_def split: option.splits)

lemma watchCallback_announces:
  "nearest (scanRoads T (longitude coords, latitude coords) roadFeatures scanStart) \<noteq> None \<Longrightarrow>
   minDist (scanRoads T (longitude coords, latitude coords) roadFeatures scanStart) \<le> Meters 30 \<Longrightarrow>
   now - lastSpokenRef st > 7000 \<Longrightarrow>
   (\<exists>u. spoken (watchCallback T roadFeatures now coords st) = spoken st @ [u])
   \<and> lastSpokenRef (watchCallback T roadFeatures now coords st) = now"
  by (auto simp: watchCallback_def positionCallback_def speak_def Let_def split: option.splits)

lemma announcedAt_spaced:
  "sorted_wrt (\<lambda>a b. b - a > 7000) (lastSpokenRef st # announcedAt T roadFeatures evs st)
   \<and> lastSpokenRef (runFixes T roadFeatures evs st)
       = last (lastSpokenRef st # announcedAt T roadFeatures evs st)"
proof (induction evs arbitrary: st)
  case Nil
  show ?case by simp
next
  case (Cons ev evs)
  obtain now coords where ev: "ev = (now, coords)"
    by (cases ev)
  let ?st = "watchCallback T roadFeatures now coords st"
  note ih = Cons.IH [of ?st]
  from watchCallback_speech [of T roadFeatures now coords st]
  show ?case
  proof
    assume quiet: "spoken ?st = spoken st \<and> lastSpokenRef ?st = lastSpokenRef st"
    then show ?thesis
      using ih by (simp add: ev)
  next
    assume loud: "(\<exists>u. spoken ?st = spoken st @ [u]) \<and> lastSpokenRef ?st = now
                  \<and> now - lastSpokenRef st > 7000"
    then have ne: "spoken ?st \<noteq> spoken st"
      by auto
    from ih loud have "\<forall>x\<in>set (announcedAt T roadFeatures evs ?st). x - now > 7000"
      by simp
    with loud have far: "\<forall>x\<in>set (announcedAt T roadFeatures evs ?st). x - lastSpokenRef st > 7000"
      by fastforce
    show ?thesis
      using ih loud ne far by (simp add: ev)
  qed
qed

text \<open>
  C4, as the code has it. After any sequence of fixes, the next fix speaks nothing and
  keeps the timestamp when at most 7000 ms have passed since the recorded timestamp,
  whatever road it matches; when the scan ends with a road name (the nearest feature
  has a name that is not empty) and a distance of at most 30 metres, and more than 7000
  ms have passed, it speaks once and records its own clock value. The recorded
  timestamp is the clock value of the last announcement of the sequence (the initial
  one if there was none), and any two announcements are more than 7000 ms apart.
\<close>

theorem cooldown:
  "(now - lastSpokenRef (runFixes T roadFeatures evs st) \<le> 7000 \<longrightarrow>
      spoken (watchCallback T roadFeatures now coords (runFixes T roadFeatures evs st))
        = spoken (runFixes T roadFeatures evs st)
      \<and> lastSpokenRef (watchCallback T roadFeatures now coords (runFixes T roadFeatures evs st))
        = lastSpokenRef (runFixes T roadFeatures evs st))
   \<and> (nearest (scanRoads T (longitude coords, latitude coords) roadFeatures scanStart) \<noteq> None
      \<and> minDist (scanRoads T (longitude coords, latitude coords) roadFeatures scanStart) \<le> Meters 30
      \<and> now - lastSpokenRef (runFixes T roadFeatures evs st) > 7000 \<longrightarrow>
      (\<exists>u. spoken (watchCallback T roadFeatures now coords (runFixes T roadFeatures evs st))
             = spoken (runFixes T roadFeatures evs st) @ [u])
      \<and> lastSpokenRef (watchCallback T roadFeatures now coords (runFixes T roadFeatures evs st))
        = now)
   \<and> lastSpokenRef (runFixes T roadFeatures evs st)
       = last (lastSpokenRef st # announcedAt T roadFeatures evs st)
   \<and> sorted_wrt (\<lambda>a b. b - a > 7000) (lastSpokenRef st # announcedAt T roadFeatures evs st)"
  using watchCallback_silent [of now "runFixes T roadFeatures evs st" T roadFeatures coords]
    watchCallback_announces [of T coords roadFeatures now "runFixes T roadFeatures evs st"]
    announcedAt_spaced [of st T roadFeatures evs]
  by blast


theorem cooldown_witness:
  "lastSpokenRef (runFixes toyTurf [sessionRoad] [(10000, fastFix)] initialState) = 10000
   \<and> 17000 - lastSpokenRef (runFixes toyTurf [sessionRoad] [(10000, fastFix)] initialState) \<le> 7000
   \<and> spoken (watchCallback toyTurf [sessionRoad] 17000 fastFix
         (runFixes toyTurf [sessionRoad] [(10000, fastFix)] initialState))
       = [NowOn (ascii ''Session Road'') (Num 20)]
   \<and> nearest (scanRoads toyTurf (longitude fastFix, latitude fastFix) [sessionRoad] scanStart)
       \<noteq> None
   \<and> minDist (scanRoads toyTurf (longitude fastFix, latitude fastFix) [sessionRoad] scanStart)
       \<le> Meters 30
   \<and> 17001 - lastSpokenRef (runFixes toyTurf [sessionRoad] [(10000, fastFix)] initialState) > 7000
   \<and> lastSpokenRef (watchCallback toyTurf [sessionRoad] 17001 fastFix
         (runFixes toyTurf [sessionRoad] [(10000, fastFix)] initialState)) = 17001"
proof -
  have run: "runFixes toyTurf [sessionRoad] [(10000, fastFix)] initialState
      = initialState
          \<lparr>userLocationRef := Some \<lparr>lat = 16.412, lon = 120.599\<rparr>,
           userSpeed := 90,
           currentRoad := Some (ascii ''Session Road''),
           spoken := [NowOn (ascii ''Session Road'') (Num 20)],
           lastSpokenRef := 10000\<rparr>"
    by (simp add: eval_defs toy_defs)
  have scan: "scanRoads toyTurf (longitude fastFix, latitude fastFix) [sessionRoad] scanStart
      = \<lparr>nearest = Some (ascii ''Session Road''), limit = Num 20, minDist = Meters 10\<rparr>"
    by (simp add: eval_defs toy_defs)
  show ?thesis
    using cooldown [of 17000 toyTurf "[sessionRoad]" "[(10000, fastFix)]" initialState fastFix]
      cooldown [of 17001 toyTurf "[sessionRoad]" "[(10000, fastFix)]" initialState fastFix]
    unfolding run scan
    by (simp add: initialState_def)
qed

text \<open>
  The claim as written (every match within 30 metres announces once the cooldown has
  elapsed) fails when the nearest feature has no name: with Session Road 10 metres
  away and an unnamed feature 5 metres away, the first fix speaks nothing and records
  no timestamp.
\<close>

theorem cooldown_unnamed_counterexample:
  "tryDistance toyTurf (longitude fastFix, latitude fastFix) sessionRoad = Some (Meters 10)
   \<and> minDist (scanRoads toyTurf (longitude fastFix, latitude fastFix)
        [sessionRoad, unnamedAlley] scanStart) = Meters 5
   \<and> 1700000000000 - lastSpokenRef (initialState :: toyGeometry State) > 7000
   \<and> spoken (watchCallback toyTurf [sessionRoad, unnamedAlley] 1700000000000 fastFix
        initialState) = []
   \<and> lastSpokenRef (watchCallback toyTurf [sessionRoad, unnamedAlley] 1700000000000 fastFix
        initialState) = 0"
  by (simp add: eval_defs toy_defs unnamedAlley_def)

subsection \<open>The nearest-road scan\<close>







subsection \<open>Matching roads along a route\<close>

lemma find_name_None:
  "(find (\<lambda>m. RouteRoad.name m = n) matched = None) = (n \<notin> RouteRoad.name ` set matched)"
  by (auto simp: find_None_iff)

lemma matchCoords_closed:
  "\<forall>p\<in>set route. pointToRoadDistance T p road \<noteq> None \<Longrightarrow>
   matchCoords T road route matched = Some (addMatched T route matched road)"
proof (induction route arbitrary: matched)
  case Nil
  show ?case by (simp add: addMatched_def nearRoute_def)
next
  case (Cons p ps)
  from Cons.prems obtain d where d: "pointToRoadDistance T p road = Some d"
    by auto
  from Cons.prems have rest: "\<forall>p\<in>set ps. pointToRoadDistance T p road \<noteq> None"
    by simp
  note ih = Cons.IH [OF rest]
  show ?case
  proof (cases "d \<le> Meters 30")
    case False
    then show ?thesis
      using d ih [of matched] by (simp add: addMatched_def nearRoute_def)
  next
    case True
    show ?thesis
    proof (cases "routeName road \<in> RouteRoad.name ` set matched")
      case True
      then show ?thesis
        using d \<open>d \<le> Meters 30\<close> ih [of matched]
        by (simp add: addMatched_def find_name_None Let_def)
    next
      case False
      then show ?thesis
        using d \<open>d \<le> Meters 30\<close> ih [of "matched @ [matchedEntry road]"]
        by (simp add: addMatched_def find_name_None Let_def nearRoute_def matchedEntry_def)
    qed
  qed
qed

lemma matchRoads_closed:
  "\<forall>road\<in>set roads. \<forall>p\<in>set route. pointToRoadDistance T p road \<noteq> None \<Longrightarrow>
   matchRoads T route roads matched = Some (foldl (addMatched T route) matched roads)"
proof (induction roads arbitrary: matched)
  case Nil
  show ?case by simp
next
  case (Cons road roads)
  then show ?case
    by (simp add: matchCoords_closed)
qed

lemma addMatched_set:
  "set (addMatched T route matched road) =
     (if nearRoute T route road \<and> routeName road \<notin> RouteRoad.name ` set matched
      then insert (matchedEntry road) (set matched)
      else set matched)"
  by (simp add: addMatched_def)

lemma matched_snoc:
  "foldl (addMatched T route) [] (roads @ [r])
     = addMatched T route (foldl (addMatched T route) [] roads) r"
  by simp

lemma matched_names:
  "RouteRoad.name ` set (foldl (addMatched T route) [] roads)
     = routeName ` {road \<in> set roads. nearRoute T route road}"
proof (induction roads rule: rev_induct)
  case Nil
  show ?case by simp
next
  case (snoc r roads)
  have n: "RouteRoad.name (matchedEntry r) = routeName r"
    by (simp add: matchedEntry_def)
  show ?case
    unfolding matched_snoc addMatched_set using snoc.IH n by auto
qed

lemma addMatched_distinct:
  "distinct (map RouteRoad.name matched) \<Longrightarrow>
   distinct (map RouteRoad.name (addMatched T route matched road))"
  by (simp add: addMatched_def matchedEntry_def)

lemma matched_distinct:
  "distinct (map RouteRoad.name (foldl (addMatched T route) [] roads))"
proof (induction roads rule: rev_induct)
  case Nil
  show ?case by simp
next
  case (snoc r roads)
  show ?case
    unfolding matched_snoc using snoc.IH by (rule addMatched_distinct)
qed

lemma matched_first:
  "m \<in> set (foldl (addMatched T route) [] roads) \<Longrightarrow>
   \<exists>pre road post. roads = pre @ road # post \<and> nearRoute T route road
      \<and> (\<forall>x\<in>set pre. nearRoute T route x \<longrightarrow> routeName x \<noteq> routeName road)
      \<and> m = matchedEntry road"
proof (induction roads rule: rev_induct)
  case Nil
  then show ?case by simp
next
  case (snoc r roads)
  show ?case
  proof (cases "m \<in> set (foldl (addMatched T route) [] roads)")
    case True
    from snoc.IH [OF True] obtain pre road post where w: "roads = pre @ road # post"
      "nearRoute T route road"
      "\<forall>x\<in>set pre. nearRoute T route x \<longrightarrow> routeName x \<noteq> routeName road"
      "m = matchedEntry road"
      by blast
    then have "roads @ [r] = pre @ road # (post @ [r])"
      by simp
    with w show ?thesis by blast
  next
    case False
    from snoc.prems have "m \<in> set (addMatched T route (foldl (addMatched T route) [] roads) r)"
      unfolding matched_snoc .
    with False have new: "nearRoute T route r"
      "routeName r \<notin> RouteRoad.name ` set (foldl (addMatched T route) [] roads)"
      "m = matchedEntry r"
      unfolding addMatched_set by (auto split: if_splits)
    from new(2) have "routeName r \<notin> routeName ` {road \<in> set roads. nearRoute T route road}"
      unfolding matched_names .
    then have "\<forall>x\<in>set roads. nearRoute T route x \<longrightarrow> routeName x \<noteq> routeName r"
      by (metis (mono_tags, lifting) imageI mem_Collect_eq)
    with new have "roads @ [r] = roads @ r # [] \<and> nearRoute T route r
      \<and> (\<forall>x\<in>set roads. nearRoute T route x \<longrightarrow> routeName x \<noteq> routeName r)
      \<and> m = matchedEntry r"
      by simp
    then show ?thesis by blast
  qed
qed


lemma getColorForSpeed_Num: "getColorForSpeed (Num l) = colorCategory_spec l"
  by (simp add: getColorForSpeed_def limitLessEq_def colorCategory_spec_def colour_defs)

text \<open>
  What holds of a search that gets a candidate, a position and a route, and in which no
  distance call throws, when no feature of the index has the name of a member of
  \<open>Object.prototype\<close>: the names of \<open>routeRoads\<close> are exactly the names of the features
  within 30 metres of some route coordinate ("Unnamed" for a feature without a name);
  no name occurs twice; each element is the element of the first feature of that name
  within 30 metres, with its limit by the order of the specification and the colour
  category of that limit.
\<close>

lemma route_matching_own_names:
  assumes "\<not> (\<forall>c\<in>set query. isWhitespace c)"
    and "geocoder (query @ ascii '', Baguio City, Philippines'') = Some (dest # rest)"
    and "userLocationRef st = Some userLoc"
    and "router (lon userLoc, lat userLoc) (snd dest, fst dest) = Some (route # routes)"
    and "\<forall>road\<in>set roadFeatures. \<forall>p\<in>set route. pointToRoadDistance T p road \<noteq> None"
    and "\<forall>road\<in>set roadFeatures. \<forall>n. RoadFeature.name road = Some n \<longrightarrow>
           n \<notin> set objectPrototypeNames"
  shows "RouteRoad.name ` set (routeRoads (handleSearch T roadFeatures geocoder router query st))
           = (\<lambda>road. case RoadFeature.name road of None \<Rightarrow> ascii ''Unnamed'' | Some n \<Rightarrow> n)
               ` {road \<in> set roadFeatures. nearRoute T route road}
         \<and> distinct (map RouteRoad.name
               (routeRoads (handleSearch T roadFeatures geocoder router query st)))
         \<and> (\<forall>m\<in>set (routeRoads (handleSearch T roadFeatures geocoder router query st)).
               \<exists>pre road post.
                 roadFeatures = pre @ road # post
                 \<and> nearRoute T route road
                 \<and> (\<forall>x\<in>set pre. nearRoute T route x \<longrightarrow>
                        RouteRoad.name m
                          \<noteq> (case RoadFeature.name x of None \<Rightarrow> ascii ''Unnamed'' | Some n \<Rightarrow> n))
                 \<and> m = \<lparr>name = (case RoadFeature.name road of
                                     None \<Rightarrow> ascii ''Unnamed'' | Some n \<Rightarrow> n),
                         speed_limit = Num (resolveLimit_spec road),
                         color = colorCategory_spec (resolveLimit_spec road)\<rparr>)"
proof -
  from assms(1) have nb: "trim query \<noteq> []"
    by (simp add: trim_empty_iff)
  have m: "matchRoads T route roadFeatures [] = Some (foldl (addMatched T route) [] roadFeatures)"
    using assms(5) by (rule matchRoads_closed)
  have r: "routeRoads (handleSearch T roadFeatures geocoder router query st)
            = foldl (addMatched T route) [] roadFeatures"
    using nb assms(2,3,4) m
    by (cases dest) (simp add: handleSearch_def Let_def speak_def)
  have nm: "routeName = (\<lambda>road::'a RoadFeature.
      case RoadFeature.name road of None \<Rightarrow> ascii ''Unnamed'' | Some n \<Rightarrow> n)"
    by (simp add: fun_eq_iff routeName_def)
  have a: "RouteRoad.name ` set (foldl (addMatched T route) [] roadFeatures)
           = (\<lambda>road. case RoadFeature.name road of None \<Rightarrow> ascii ''Unnamed'' | Some n \<Rightarrow> n)
               ` {road \<in> set roadFeatures. nearRoute T route road}"
    using matched_names [of T route roadFeatures] unfolding nm .
  have b: "distinct (map RouteRoad.name (foldl (addMatched T route) [] roadFeatures))"
    by (rule matched_distinct)
  have c: "\<forall>m\<in>set (foldl (addMatched T route) [] roadFeatures).
               \<exists>pre road post.
                 roadFeatures = pre @ road # post
                 \<and> nearRoute T route road
                 \<and> (\<forall>x\<in>set pre. nearRoute T route x \<longrightarrow>
                        RouteRoad.name m
                          \<noteq> (case RoadFeature.name x of None \<Rightarrow> ascii ''Unnamed'' | Some n \<Rightarrow> n))
                 \<and> m = \<lparr>name = (case RoadFeature.name road of
                                     None \<Rightarrow> ascii ''Unnamed'' | Some n \<Rightarrow> n),
                         speed_limit = Num (resolveLimit_spec road),
                         color = colorCategory_spec (resolveLimit_spec road)\<rparr>"
  proof
    fix m
    assume "m \<in> set (foldl (addMatched T route) [] roadFeatures)"
    then obtain pre road post where w: "roadFeatures = pre @ road # post"
      "nearRoute T route road"
      "\<forall>x\<in>set pre. nearRoute T route x \<longrightarrow> routeName x \<noteq> routeName road"
      "m = matchedEntry road"
      using matched_first by blast
    from w(1) have "road \<in> set roadFeatures"
      by simp
    with assms(6) have "\<forall>n. RoadFeature.name road = Some n \<longrightarrow> n \<notin> set objectPrototypeNames"
      by blast
    then have l: "routeLimit road = Num (resolveLimit_spec road)"
      by (rule limit_resolution_own_names)
    have e: "m = \<lparr>name = (case RoadFeature.name road of
                                     None \<Rightarrow> ascii ''Unnamed'' | Some n \<Rightarrow> n),
                         speed_limit = Num (resolveLimit_spec road),
                         color = colorCategory_spec (resolveLimit_spec road)\<rparr>"
      using w(4) by (simp add: matchedEntry_def l getColorForSpeed_Num routeName_def)
    then have n: "RouteRoad.name m = routeName road"
      by (simp add: routeName_def)
    have f: "\<forall>x\<in>set pre. nearRoute T route x \<longrightarrow>
                        RouteRoad.name m
                          \<noteq> (case RoadFeature.name x of None \<Rightarrow> ascii ''Unnamed'' | Some n \<Rightarrow> n)"
      using w(3) unfolding n nm by (metis (no_types))
    from w(1,2) f e show "\<exists>pre road post.
                 roadFeatures = pre @ road # post
                 \<and> nearRoute T route road
                 \<and> (\<forall>x\<in>set pre. nearRoute T route x \<longrightarrow>
                        RouteRoad.name m
                          \<noteq> (case RoadFeature.name x of None \<Rightarrow> ascii ''Unnamed'' | Some n \<Rightarrow> n))
                 \<and> m = \<lparr>name = (case RoadFeature.name road of
                                     None \<Rightarrow> ascii ''Unnamed'' | Some n \<Rightarrow> n),
                         speed_limit = Num (resolveLimit_spec road),
                         color = colorCategory_spec (resolveLimit_spec road)\<rparr>"
      by blast
  qed
  show ?thesis
    unfolding r by (rule conjI [OF a conjI [OF b c]])
qed

text \<open>
  A route 10 metres from Kennon Road (limit 50) and 40 metres from Asin Road: only
  Kennon Road is listed, in green.
\<close>

lemma route_matching_example:
  "routeRoads (handleSearch toyTurf [kennonRoad, asinRoad] toyGeocoder toyRouter
     (ascii ''Camp 7'') locatedState)
   = [\<lparr>name = ascii ''Kennon Road'', speed_limit = Num 50, color = green\<rparr>]"
proof -
  have trimmed: "trim (ascii ''Camp 7'') = ascii ''Camp 7''"
    by (simp add: trim_def isWhitespace_def ascii_def)
  have ne: "ascii ''Camp 7'' \<noteq> []"
    by (simp add: ascii_def)
  have h3: "userLocationRef locatedState = Some \<lparr>lat = 16.412, lon = 120.599\<rparr>"
    by (simp add: locatedState_def initialState_def)
  have matched: "matchRoads toyTurf toyRoute [kennonRoad, asinRoad] []
      = Some [\<lparr>name = ascii ''Kennon Road'', speed_limit = Num 50, color = green\<rparr>]"
    by (simp add: toy_defs toyRoute_def routeName_def routeLimit_def table_defs
        getColorForSpeed_def limitLessEq_def green_def)
  show ?thesis
    unfolding handleSearch_def trimmed Let_def
    by (simp add: ne toyGeocoder_def h3 toyRouter_def matched speak_def del: matchRoads.simps)
qed

text \<open>
  C5, at a concrete index. The route passes 10 metres from a feature named
  "constructor" that has no explicit limit and no entry in the speed table: its
  effective limit is 30 and its colour category orange. The search succeeds and lists
  the feature with the inherited member \<open>constructor\<close> of the table object as its limit;
  every comparison of \<open>getColorForSpeed\<close> with that value is false, and the colour is
  green.
\<close>

theorem legend_inherited_member:
  "nearRoute toyTurf toyRoute constructorRoad
   \<and> resolveLimit_spec constructorRoad = 30
   \<and> colorCategory_spec 30 = orange
   \<and> routeRoads (handleSearch toyTurf [constructorRoad] toyGeocoder toyRouter
        (ascii ''Camp 7'') locatedState)
      = [\<lparr>name = ascii ''constructor'', speed_limit = Member (ascii ''constructor''),
          color = green\<rparr>]"
proof -
  have a: "nearRoute toyTurf toyRoute constructorRoad"
    by (simp add: nearRoute_def toyTurf_def constructorRoad_def toyRoute_def)
  have b: "resolveLimit_spec constructorRoad = 30"
    by (simp add: resolveLimit_spec_def RoadSpeedTable_spec_def roadsSpeedsEntries_def
        ascii_def constructorRoad_def)
  have c: "colorCategory_spec 30 = orange"
    by (simp add: colorCategory_spec_def)
  have trimmed: "trim (ascii ''Camp 7'') = ascii ''Camp 7''"
    by (simp add: trim_def isWhitespace_def ascii_def)
  have ne: "ascii ''Camp 7'' \<noteq> []"
    by (simp add: ascii_def)
  have h3: "userLocationRef locatedState = Some \<lparr>lat = 16.412, lon = 120.599\<rparr>"
    by (simp add: locatedState_def initialState_def)
  have matched: "matchRoads toyTurf toyRoute [constructorRoad] []
      = Some [\<lparr>name = ascii ''constructor'', speed_limit = Member (ascii ''constructor''),
               color = green\<rparr>]"
    by (simp add: toyTurf_def constructorRoad_def toyRoute_def routeName_def routeLimit_def
        table_defs getColorForSpeed_def limitLessEq_def green_def)
  have d: "routeRoads (handleSearch toyTurf [constructorRoad] toyGeocoder toyRouter
        (ascii ''Camp 7'') locatedState)
      = [\<lparr>name = ascii ''constructor'', speed_limit = Member (ascii ''constructor''),
          color = green\<rparr>]"
    unfolding handleSearch_def trimmed Let_def
    by (simp add: ne toyGeocoder_def h3 toyRouter_def matched speak_def del: matchRoads.simps)
  from a b c d show ?thesis by blast
qed

subsection \<open>Malformed features\<close>

text \<open>The position callback skips a feature for which the library throws.\<close>

lemma scanRoads_append:
  "scanRoads T p (xs @ ys) s = scanRoads T p ys (scanRoads T p xs s)"
  by (induction xs arbitrary: s) simp_all

lemma scanRoads_skips_malformed:
  "tryDistance T p road = None \<Longrightarrow>
   scanRoads T p (pre @ road # post) s = scanRoads T p (pre @ post) s"
  by (simp add: scanRoads_append)

text \<open>
  C6, at a concrete index. With a first feature whose geometry makes the library throw
  and Kennon Road 10 metres from the route, the nearest-road scan skips the broken
  feature and finds Kennon Road, and the route loop over Kennon Road alone matches it;
  the route loop over both features throws, \<open>handleSearch\<close> ends in its \<open>catch\<close>, and
  \<open>routeRoads\<close> stays empty.
\<close>

theorem route_scan_aborts:
  "nearRoute toyTurf toyRoute kennonRoad
   \<and> nearest (scanRoads toyTurf (120.6, 16.4) [brokenRoad, kennonRoad] scanStart)
       = Some (ascii ''Kennon Road'')
   \<and> matchRoads toyTurf toyRoute [kennonRoad] []
       = Some [\<lparr>name = ascii ''Kennon Road'', speed_limit = Num 50, color = green\<rparr>]
   \<and> matchRoads toyTurf toyRoute [brokenRoad, kennonRoad] [] = None
   \<and> routeRoads (handleSearch toyTurf [brokenRoad, kennonRoad] toyGeocoder toyRouter (ascii ''Camp 7'')
        locatedState) = []
   \<and> alerts (handleSearch toyTurf [brokenRoad, kennonRoad] toyGeocoder toyRouter (ascii ''Camp 7'')
        locatedState) = [(''Error'', ''Failed to find route.'')]"
proof -
  have a: "nearRoute toyTurf toyRoute kennonRoad"
    by (simp add: nearRoute_def toy_defs toyRoute_def)
  have b: "nearest (scanRoads toyTurf (120.6, 16.4) [brokenRoad, kennonRoad] scanStart)
       = Some (ascii ''Kennon Road'')"
    by (simp add: toy_defs scanStart_def tryDistance_def orNull_def ascii_def)
  have c: "matchRoads toyTurf toyRoute [kennonRoad] []
       = Some [\<lparr>name = ascii ''Kennon Road'', speed_limit = Num 50, color = green\<rparr>]"
    by (simp add: toy_defs toyRoute_def routeName_def routeLimit_def table_defs
        getColorForSpeed_def limitLessEq_def green_def)
  have d: "matchRoads toyTurf toyRoute [brokenRoad, kennonRoad] [] = None"
    by (simp add: toy_defs toyRoute_def)
  have trimmed: "trim (ascii ''Camp 7'') = ascii ''Camp 7''"
    by (simp add: trim_def isWhitespace_def ascii_def)
  have ne: "ascii ''Camp 7'' \<noteq> []"
    by (simp add: ascii_def)
  have e: "handleSearch toyTurf [brokenRoad, kennonRoad] toyGeocoder toyRouter (ascii ''Camp 7'')
        locatedState
      = failed (locatedState
          \<lparr>requests := [Geocode (ascii ''Camp 7, Baguio City, Philippines''),
                         Route (120.599, 16.412) (120.61, 16.39)],
           routeCoords := [\<lparr>latitude = 16.4, longitude = 120.6\<rparr>],
           showLegend := True\<rparr>)"
    unfolding handleSearch_def trimmed Let_def
    by (simp add: ne toyGeocoder_def toyRouter_def d locatedState_def initialState_def
        del: matchRoads.simps)
       (simp add: toyRoute_def ascii_def)
  have f: "routeRoads (handleSearch toyTurf [brokenRoad, kennonRoad] toyGeocoder toyRouter
        (ascii ''Camp 7'') locatedState) = []"
    unfolding e by (simp add: failed_def alert_def locatedState_def initialState_def)
  have g: "alerts (handleSearch toyTurf [brokenRoad, kennonRoad] toyGeocoder toyRouter (ascii ''Camp 7'')
        locatedState) = [(''Error'', ''Failed to find route.'')]"
    unfolding e by (simp add: failed_def alert_def locatedState_def initialState_def)
  from a b c d f g show ?thesis by blast
qed



end
